theory Spec2Isabelle
  imports Complex_Main
begin

section \<open>JavaScript values and failures\<close>

text \<open>
  The client is TypeScript; several of its functions take or return values of type
  \<^verbatim>\<open>any\<close> (a caught exception, a parsed JSON body). Such values are modelled by
  the plain-data fragment of JavaScript: \<^verbatim>\<open>undefined\<close>, \<^verbatim>\<open>null\<close>, booleans, numbers,
  strings, arrays and objects with string keys, none of whose properties is a function.
  A number is \<^verbatim>\<open>NaN\<close>, an infinity or a real (a double is one of these; zero stands for
  both of its signs). An object is an association list read with \<open>map_of\<close>. A string is
  a list of 8-bit code units.
\<close>

datatype jsnum = NaN | PosInfinity | NegInfinity | Finite real

datatype jsval =
    JUndefined
  | JNull
  | JBool bool
  | JNum jsnum
  | JStr string
  | JArr "jsval list"
  | JObj "(string \<times> jsval) list"

text \<open>
  A thrown value. \<open>Error m\<close> is \<^verbatim>\<open>new Error(m)\<close>; \<open>TypeError\<close> is what a property
  read on \<^verbatim>\<open>null\<close> or \<^verbatim>\<open>undefined\<close>, a conversion to a string that finds no
  primitive, or a failed \<^verbatim>\<open>fetch\<close> throws; \<open>SyntaxError\<close> is what \<^verbatim>\<open>JSON.parse\<close>
  throws on text that is not JSON; \<open>ZodError\<close> is what a zod schema throws on data it
  rejects.
\<close>

datatype js_error = Error string | TypeError | SyntaxError | ZodError

text \<open>Truthiness, as \<^verbatim>\<open>||\<close>, \<^verbatim>\<open>&&\<close>, \<^verbatim>\<open>!\<close> and \<^verbatim>\<open>if\<close> test it.\<close>

fun truthy :: "jsval \<Rightarrow> bool" where
  "truthy JUndefined = False"
| "truthy JNull = False"
| "truthy (JBool b) = b"
| "truthy (JNum n) = (case n of Finite x \<Rightarrow> x \<noteq> 0 | NaN \<Rightarrow> False | _ \<Rightarrow> True)"
| "truthy (JStr s) = (s \<noteq> [])"
| "truthy (JArr xs) = True"
| "truthy (JObj kvs) = True"

text \<open>
  The property read \<^verbatim>\<open>v.k\<close> for the keys this code reads (\<^verbatim>\<open>message\<close>, \<^verbatim>\<open>error\<close>):
  it throws on \<^verbatim>\<open>null\<close> and \<^verbatim>\<open>undefined\<close>, finds the key in an object, and is
  \<^verbatim>\<open>undefined\<close> on a primitive or an array.
\<close>

fun get_prop :: "jsval \<Rightarrow> string \<Rightarrow> js_error + jsval" where
  "get_prop JUndefined k = Inl TypeError"
| "get_prop JNull k = Inl TypeError"
| "get_prop (JObj kvs) k = Inr (case map_of kvs k of Some v \<Rightarrow> v | None \<Rightarrow> JUndefined)"
| "get_prop v k = Inr JUndefined"

text \<open>
  \<^verbatim>\<open>Array.prototype.join\<close> over the converted elements: the first conversion that
  throws ends it.
\<close>

fun join_comma :: "(js_error + string) list \<Rightarrow> js_error + string" where
  "join_comma [] = Inr []"
| "join_comma [r] = r"
| "join_comma (r # t # rs) =
     (case r of
        Inl e \<Rightarrow> Inl e
      | Inr s \<Rightarrow>
          (case join_comma (t # rs) of
             Inl e \<Rightarrow> Inl e
           | Inr rest \<Rightarrow> Inr (s @ '','' @ rest)))"

text \<open>
  The conversion to a string that \<^verbatim>\<open>JSON.parse\<close> and \<^verbatim>\<open>new Error\<close> apply to their
  argument. \<open>Number_toString\<close> is JavaScript's rendering of a number. An array is the
  join of its elements, \<^verbatim>\<open>null\<close> and \<^verbatim>\<open>undefined\<close> among them giving the empty string.
  An object is \<^verbatim>\<open>[object Object]\<close> by \<^verbatim>\<open>Object.prototype.toString\<close>, unless it has a
  property \<^verbatim>\<open>toString\<close> of its own: that is no function, \<^verbatim>\<open>valueOf\<close> gives no
  primitive either, and the conversion throws.
\<close>

fun ToString :: "(jsnum \<Rightarrow> string) \<Rightarrow> jsval \<Rightarrow> js_error + string" where
  "ToString Number_toString JUndefined = Inr ''undefined''"
| "ToString Number_toString JNull = Inr ''null''"
| "ToString Number_toString (JBool b) = Inr (if b then ''true'' else ''false'')"
| "ToString Number_toString (JNum n) = Inr (Number_toString n)"
| "ToString Number_toString (JStr s) = Inr s"
| "ToString Number_toString (JArr xs) =
     join_comma
       (map (\<lambda>x. case x of JUndefined \<Rightarrow> Inr [] | JNull \<Rightarrow> Inr []
                  | _ \<Rightarrow> ToString Number_toString x) xs)"
| "ToString Number_toString (JObj kvs) =
     (if map_of kvs ''toString'' = None then Inr ''[object Object]'' else Inl TypeError)"

section \<open>Requests, responses and streams\<close>

definition baseUrl :: string where
  "baseUrl = ''http://localhost:8000''"

text \<open>A POST request: the endpoint and the fields of the JSON body that
  \<^verbatim>\<open>JSON.stringify\<close> is given, in order.\<close>

record request =
  endpoint :: string
  payload :: "(string \<times> string) list"

text \<open>
  \<^verbatim>\<open>streamAsyncIterator(reader)\<close> is imported from \<^verbatim>\<open>./asyncIterator\<close>. What it
  yields for a response body is the input here: the finite sequence of decoded text
  fragments, and the failure that ends the sequence if it does not end normally.
\<close>

datatype stream = Stream (fragments: "string list") (failure: "js_error option")

record response =
  status :: nat
  body :: "stream option"

definition ok :: "response \<Rightarrow> bool" where
  "ok r = (200 \<le> status r \<and> status r \<le> 299)"

text \<open>
  What a function does to its surroundings, in order: the network calls it issues, its
  calls of the \<^verbatim>\<open>onChunk\<close> callback, and what it writes with \<^verbatim>\<open>console.log\<close>.
\<close>

datatype event = Fetch request | OnChunk string | ConsoleLog jsval

fun onChunk_calls :: "event list \<Rightarrow> string list" where
  "onChunk_calls [] = []"
| "onChunk_calls (OnChunk c # tr) = c # onChunk_calls tr"
| "onChunk_calls (e # tr) = onChunk_calls tr"

fun fetch_calls :: "event list \<Rightarrow> request list" where
  "fetch_calls [] = []"
| "fetch_calls (Fetch r # tr) = r # fetch_calls tr"
| "fetch_calls (e # tr) = fetch_calls tr"

section \<open>streamChat and streamSuggestions\<close>

text \<open>
  The loop of both functions:
  \<^verbatim>\<open>for await (const chunk of ...) { fullResponse += chunk; onChunk(fullResponse); }\<close>
  over the fragments that arrive, from the text accumulated so far and the events so far.
\<close>

fun consume :: "string list \<Rightarrow> string \<Rightarrow> event list \<Rightarrow> event list \<times> string" where
  "consume [] fullResponse tr = (tr, fullResponse)"
| "consume (chunk # rest) fullResponse tr =
     (let fullResponse' = fullResponse @ chunk
      in consume rest fullResponse' (tr @ [OnChunk fullResponse']))"

text \<open>The part both functions share after \<^verbatim>\<open>fetch\<close> has answered.\<close>

definition read_stream ::
  "request \<Rightarrow> js_error + response \<Rightarrow> event list \<times> (js_error + string)" where
  "read_stream req answer =
     (case answer of
        Inl e \<Rightarrow> ([Fetch req], Inl e)
      | Inr response \<Rightarrow>
          (case body response of
             None \<Rightarrow> ([Fetch req], Inl (Error ''No streaming body in response''))
           | Some reader \<Rightarrow>
               (let (tr, fullResponse) = consume (fragments reader) [] [Fetch req]
                in case failure reader of
                     Some e \<Rightarrow> (tr, Inl e)
                   | None \<Rightarrow> (tr, Inr fullResponse))))"

definition chat_request :: "string \<Rightarrow> string \<Rightarrow> string \<Rightarrow> string \<Rightarrow> request" where
  "chat_request url query integrator model =
     \<lparr>endpoint = baseUrl @ ''/api/retrieve-chat'',
      payload = [(''url'', url), (''query'', query), (''integrator'', integrator),
                 (''model'', model)]\<rparr>"

definition suggestions_request :: "string \<Rightarrow> string \<Rightarrow> request" where
  "suggestions_request url integrator =
     \<lparr>endpoint = baseUrl @ ''/api/suggest-articles'',
      payload = [(''url'', url), (''integrator'', integrator)]\<rparr>"

text \<open>\<open>fetch\<close> is the network: the answer it gives to a request, or the failure of
  the call.\<close>

definition streamChat ::
  "(request \<Rightarrow> js_error + response) \<Rightarrow> string \<Rightarrow> string \<Rightarrow> string \<Rightarrow> string
     \<Rightarrow> event list \<times> (js_error + string)" where
  "streamChat fetch url query integrator model =
     (let req = chat_request url query integrator model
      in read_stream req (fetch req))"

definition streamSuggestions ::
  "(request \<Rightarrow> js_error + response) \<Rightarrow> string \<Rightarrow> string
     \<Rightarrow> event list \<times> (js_error + string)" where
  "streamSuggestions fetch url integrator =
     (let req = suggestions_request url integrator
      in read_stream req (fetch req))"

section \<open>The error classifier\<close>

text \<open>
  \<^verbatim>\<open>extractErrorMessage\<close>. \<open>JSON_parse\<close> is JavaScript's \<^verbatim>\<open>JSON.parse\<close> on a text:
  \<open>None\<close> when it throws. \<^verbatim>\<open>JSON.parse(message)\<close> first converts its argument to a
  string. The \<^verbatim>\<open>try\<close> block catches what the conversion and the parser throw, and the
  \<open>TypeError\<close> of reading \<^verbatim>\<open>.message\<close> on a first element that is \<^verbatim>\<open>null\<close>; the read
  of \<^verbatim>\<open>error.message\<close> on the first line stands outside the \<^verbatim>\<open>try\<close>.
\<close>

definition extractErrorMessage ::
  "(string \<Rightarrow> jsval option) \<Rightarrow> (jsnum \<Rightarrow> string) \<Rightarrow> jsval \<Rightarrow> js_error + jsval" where
  "extractErrorMessage JSON_parse Number_toString error =
     (case get_prop error ''message'' of
        Inl e \<Rightarrow> Inl e
      | Inr m \<Rightarrow>
          (let message = (if truthy m then m else JStr ''Something went wrong'')
           in Inr (case ToString Number_toString message of
                     Inl e \<Rightarrow> message
                   | Inr text \<Rightarrow>
                       (case JSON_parse text of
                          None \<Rightarrow> message
                        | Some parsed \<Rightarrow>
                            (case parsed of
                               JArr elems \<Rightarrow>
                                 (if length elems > 0 then
                                    (case get_prop (hd elems) ''message'' of
                                       Inl e \<Rightarrow> message
                                     | Inr pm \<Rightarrow> if truthy pm then pm else message)
                                  else message)
                             | _ \<Rightarrow> message)))))"

section \<open>processArticle\<close>

text \<open>\<^verbatim>\<open>response.json()\<close>: the whole body read as text and parsed.\<close>

definition response_json :: "(string \<Rightarrow> jsval option) \<Rightarrow> response \<Rightarrow> js_error + jsval" where
  "response_json JSON_parse r =
     (case body r of
        None \<Rightarrow> (case JSON_parse [] of None \<Rightarrow> Inl SyntaxError | Some v \<Rightarrow> Inr v)
      | Some s \<Rightarrow>
          (case failure s of
             Some e \<Rightarrow> Inl e
           | None \<Rightarrow>
               (case JSON_parse (concat (fragments s)) of
                  None \<Rightarrow> Inl SyntaxError
                | Some v \<Rightarrow> Inr v)))"

definition process_request :: "string \<Rightarrow> string \<Rightarrow> string \<Rightarrow> request" where
  "process_request url integrator chunk_size =
     \<lparr>endpoint = baseUrl @ ''/api/process-article'',
      payload = [(''url'', url), (''integrator'', integrator), (''chunk_size'', chunk_size)]\<rparr>"

text \<open>
  \<^verbatim>\<open>processArticleSchema.parse(data)\<close>, the validator of the server function, for data
  whose three fields are strings: \<open>url\<close> has to pass zod's URL test, \<open>is_url\<close> here, and
  \<open>integrator\<close> has to be one of the two names; any string is a \<open>chunk_size\<close>.
\<close>

definition processArticleSchema :: "(string \<Rightarrow> bool) \<Rightarrow> string \<Rightarrow> string \<Rightarrow> string \<Rightarrow> bool" where
  "processArticleSchema is_url url integrator chunk_size =
     (is_url url \<and> (integrator = ''together'' \<or> integrator = ''openai''))"

text \<open>
  The server function: the validator, then the handler. \<^verbatim>\<open>new Error(x)\<close> converts \<open>x\<close>
  to a string for its message, and throws what the conversion throws.
\<close>

definition processArticle ::
  "(request \<Rightarrow> js_error + response) \<Rightarrow> (string \<Rightarrow> jsval option) \<Rightarrow> (jsnum \<Rightarrow> string) \<Rightarrow>
     (string \<Rightarrow> bool) \<Rightarrow> string \<Rightarrow> string \<Rightarrow> string \<Rightarrow> event list \<times> (js_error + jsval)" where
  "processArticle fetch JSON_parse Number_toString is_url url integrator chunk_size =
     (if \<not> processArticleSchema is_url url integrator chunk_size then ([], Inl ZodError)
      else
        (let req = process_request url integrator chunk_size
         in case fetch req of
              Inl e \<Rightarrow> ([Fetch req], Inl e)
            | Inr response \<Rightarrow>
                (if \<not> ok response then
                   (case response_json JSON_parse response of
                      Inl e \<Rightarrow> ([Fetch req], Inl e)
                    | Inr errorResponse \<Rightarrow>
                        (case get_prop errorResponse ''error'' of
                           Inl e \<Rightarrow> ([Fetch req, ConsoleLog errorResponse], Inl e)
                         | Inr err \<Rightarrow>
                             ([Fetch req, ConsoleLog errorResponse],
                              (case ToString Number_toString
                                      (if truthy err then err
                                       else JStr ''Failed to process article'') of
                                 Inl e \<Rightarrow> Inl e
                               | Inr msg \<Rightarrow> Inl (Error msg)))))
                 else
                   (case response_json JSON_parse response of
                      Inl e \<Rightarrow> ([Fetch req], Inl e)
                    | Inr result \<Rightarrow> ([Fetch req], Inr result)))))"

section \<open>The conversation log\<close>

datatype role = User | Assistant | Tool | System

record Message =
  role :: role
  content :: string

record ConversationCard =
  user :: Message
  assistant :: Message

definition chat_card :: "string \<Rightarrow> ConversationCard" where
  "chat_card userMessage =
     \<lparr>user = \<lparr>role = User, content = userMessage\<rparr>,
      assistant = \<lparr>role = Assistant, content = []\<rparr>\<rparr>"

definition suggestions_card :: ConversationCard where
  "suggestions_card =
     \<lparr>user = \<lparr>role = User, content = ''Suggested Articles:''\<rparr>,
      assistant = \<lparr>role = Assistant, content = []\<rparr>\<rparr>"

text \<open>\<^verbatim>\<open>setConversations((prev) => [...prev, newCard])\<close>\<close>

definition append_card :: "ConversationCard \<Rightarrow> ConversationCard list \<Rightarrow> ConversationCard list" where
  "append_card newCard prev = prev @ [newCard]"

text \<open>
  The updater that \<^verbatim>\<open>onChunk\<close> hands to \<^verbatim>\<open>setConversations\<close>, the same text in
  \<^verbatim>\<open>handleSubmit\<close> and \<^verbatim>\<open>handleSuggestArticles\<close>. On an empty log \<^verbatim>\<open>lastIndex\<close> is
  \<open>-1\<close>: the assignment sets a property named \<^verbatim>\<open>-1\<close> and the array keeps no element.
\<close>

definition update_last :: "string \<Rightarrow> ConversationCard list \<Rightarrow> ConversationCard list" where
  "update_last partialResponse prev =
     (let updated = prev
      in if updated = [] then updated
         else (let lastIndex = length updated - 1
               in updated[lastIndex :=
                    (updated ! lastIndex)\<lparr>assistant :=
                       \<lparr>role = Assistant, content = partialResponse\<rparr>\<rparr>]))"

definition card_inv :: "ConversationCard \<Rightarrow> bool" where
  "card_inv c = (role (user c) = User \<and> role (assistant c) = Assistant)"

text \<open>
  One operation on the log: one of the four calls of \<^verbatim>\<open>setConversations\<close>. Both
  handlers append their card before they start the stream and nothing removes a card, so
  a streamed update finds a log that is not empty. The steps of two exchanges may
  interleave.
\<close>

inductive log_step :: "ConversationCard list \<Rightarrow> ConversationCard list \<Rightarrow> bool" where
  submit_chat: "log_step l (append_card (chat_card userMessage) l)"
| submit_suggestions: "log_step l (append_card suggestions_card l)"
| streamed: "l \<noteq> [] \<Longrightarrow> log_step l (update_last partialResponse l)"

text \<open>The log starts empty (\<^verbatim>\<open>useState([])\<close>).\<close>

inductive reachable :: "ConversationCard list \<Rightarrow> bool" where
  initial: "reachable []"
| step: "reachable l \<Longrightarrow> log_step l l' \<Longrightarrow> reachable l'"

section \<open>The chat component\<close>

datatype Integrator = together | openai

fun integrator_name :: "Integrator \<Rightarrow> string" where
  "integrator_name together = ''together''"
| "integrator_name openai = ''openai''"

text \<open>
  The settings context and the state of \<^verbatim>\<open>AIChat\<close>, with what the component does to
  the outside: the requests issued and the errors written with \<^verbatim>\<open>console.error\<close>.
\<close>

record app_state =
  articleUrl :: string
  articleTitle :: string
  integrator :: Integrator
  userQuery :: string
  model :: string
  chunkSize :: string
  conversations :: "ConversationCard list"
  chatLoading :: bool
  suggestionsLoading :: bool
  requests :: "request list"
  console_errors :: "(string \<times> js_error) list"

definition initial_state :: app_state where
  "initial_state =
     \<lparr>articleUrl = [], articleTitle = [], integrator = openai, userQuery = [],
      model = [], chunkSize = [], conversations = [], chatLoading = False,
      suggestionsLoading = False, requests = [], console_errors = []\<rparr>"

text \<open>What \<^verbatim>\<open>String.prototype.trim\<close> strips, among 8-bit code units: TAB, LF, VT, FF,
  CR, space and the no-break space.\<close>

definition is_space :: "char \<Rightarrow> bool" where
  "is_space c = (of_char c \<in> {9, 10, 11, 12, 13, 32, 160 :: nat})"

definition trim :: "string \<Rightarrow> string" where
  "trim s = rev (dropWhile is_space (rev (dropWhile is_space s)))"

text \<open>An event of a stream function, as the component sees it: a request goes out, or
  the \<^verbatim>\<open>onChunk\<close> closure runs and hands its updater to \<^verbatim>\<open>setConversations\<close>.\<close>

fun perform :: "app_state \<Rightarrow> event \<Rightarrow> app_state" where
  "perform st (Fetch req) = st\<lparr>requests := requests st @ [req]\<rparr>"
| "perform st (OnChunk partialResponse) =
     st\<lparr>conversations := update_last partialResponse (conversations st)\<rparr>"
| "perform st (ConsoleLog v) = st"

text \<open>
  The two handlers. The state updates they queue are applied in the order of the calls.
  A handler is followed from its first line to its last: what the component does for
  other events while the stream is awaited is not interleaved.
  \<^verbatim>\<open>e.preventDefault()\<close> touches nothing of this state.
\<close>

definition handleSubmit :: "(request \<Rightarrow> js_error + response) \<Rightarrow> app_state \<Rightarrow> app_state" where
  "handleSubmit fetch st =
     (let userMessage = trim (userQuery st)
      in if userMessage = [] then st
         else
           (let st1 = st\<lparr>userQuery := [], chatLoading := True\<rparr>;
                newCard = chat_card userMessage;
                st2 = st1\<lparr>conversations := append_card newCard (conversations st1)\<rparr>;
                (tr, res) = streamChat fetch (articleUrl st) userMessage
                              (integrator_name (integrator st)) (model st);
                st3 = foldl perform st2 tr;
                st4 = (case res of
                         Inl e \<Rightarrow> st3\<lparr>console_errors := console_errors st3 @
                                    [(''Error streaming response:'', e)]\<rparr>
                       | Inr fullResponse \<Rightarrow> st3)
            in st4\<lparr>chatLoading := False\<rparr>))"

definition handleSuggestArticles ::
  "(request \<Rightarrow> js_error + response) \<Rightarrow> app_state \<Rightarrow> app_state" where
  "handleSuggestArticles fetch st =
     (if articleUrl st = [] then st
      else
        (let st1 = st\<lparr>suggestionsLoading := True\<rparr>;
             newCard = suggestions_card;
             st2 = st1\<lparr>conversations := append_card newCard (conversations st1)\<rparr>;
             (tr, res) = streamSuggestions fetch (articleUrl st)
                           (integrator_name (integrator st));
             st3 = foldl perform st2 tr;
             st4 = (case res of
                      Inl e \<Rightarrow> st3\<lparr>console_errors := console_errors st3 @
                                 [(''Error streaming suggestions:'', e)]\<rparr>
                    | Inr fullResponse \<Rightarrow> st3)
         in st4\<lparr>suggestionsLoading := False\<rparr>))"

section \<open>The error banner of ArticleProcess\<close>

text \<open>
  \<^verbatim>\<open>const [error, setError] = useState("")\<close> and the effect on it:
  \<^verbatim>\<open>useEffect(() => { if (error) { const timer = setTimeout(() => { setError(""); }, 8000);
  return () => clearTimeout(timer); } }, [error])\<close>.
  Time is counted in milliseconds. \<open>timer\<close> is the pending timeout, if there is one, as
  the time left until its callback runs.
\<close>

record banner =
  error :: string
  timer :: "nat option"

definition banner_init :: banner where
  "banner_init = \<lparr>error = [], timer = None\<rparr>"

text \<open>The function the effect returns: \<^verbatim>\<open>clearTimeout(timer)\<close>.\<close>

definition error_cleanup :: "banner \<Rightarrow> banner" where
  "error_cleanup b = b\<lparr>timer := None\<rparr>"

text \<open>The body of the effect, run for the value \<open>error\<close> now has.\<close>

definition error_effect :: "banner \<Rightarrow> banner" where
  "error_effect b = (if error b \<noteq> [] then b\<lparr>timer := Some 8000\<rparr> else b)"

text \<open>
  \<^verbatim>\<open>setError(e)\<close>. The effect depends on \<^verbatim>\<open>[error]\<close>: it is cleaned up and run again
  when the value of \<open>error\<close> has changed, and not otherwise.
\<close>

definition setError :: "string \<Rightarrow> banner \<Rightarrow> banner" where
  "setError e b =
     (if e = error b then b else error_effect (error_cleanup (b\<lparr>error := e\<rparr>)))"

text \<open>\<open>d\<close> milliseconds pass while nothing else happens. A timeout that is due runs its
  callback, \<^verbatim>\<open>setError("")\<close>.\<close>

definition elapse :: "nat \<Rightarrow> banner \<Rightarrow> banner" where
  "elapse d b =
     (case timer b of
        None \<Rightarrow> b
      | Some r \<Rightarrow> if d < r then b\<lparr>timer := Some (r - d)\<rparr>
                  else setError [] (b\<lparr>timer := None\<rparr>))"

section \<open>Aggregation\<close>

lemma consume_events:
  "fst (consume fs acc tr) =
     tr @ map (\<lambda>k. OnChunk (acc @ concat (take (Suc k) fs))) [0..<length fs]"
proof (induction fs arbitrary: acc tr)
  case Nil
  show ?case by simp
next
  case (Cons f fs)
  have "map (\<lambda>k. OnChunk (acc @ concat (take (Suc k) (f # fs)))) [0..<length (f # fs)] =
        OnChunk (acc @ f) # map (\<lambda>k. OnChunk ((acc @ f) @ concat (take (Suc k) fs))) [0..<length fs]"
    by (simp add: upt_conv_Cons map_Suc_upt [symmetric] del: upt_Suc)
  with Cons.IH [of "acc @ f" "tr @ [OnChunk (acc @ f)]"] show ?case
    by (simp add: Let_def)
qed

lemma consume_text: "snd (consume fs acc tr) = acc @ concat fs"
  by (induction fs arbitrary: acc tr) (simp_all add: Let_def)

lemma onChunk_calls_append:
  "onChunk_calls (xs @ ys) = onChunk_calls xs @ onChunk_calls ys"
  by (induction xs rule: onChunk_calls.induct) simp_all

lemma onChunk_calls_map: "onChunk_calls (map (\<lambda>k. OnChunk (g k)) ks) = map g ks"
  by (induction ks) simp_all

lemma fetch_calls_append: "fetch_calls (xs @ ys) = fetch_calls xs @ fetch_calls ys"
  by (induction xs rule: fetch_calls.induct) simp_all

lemma fetch_calls_map: "fetch_calls (map (\<lambda>k. OnChunk (g k)) ks) = []"
  by (induction ks) simp_all

lemma read_stream_body:
  "body response = Some (Stream fs fl) \<Longrightarrow>
   read_stream req (Inr response) =
     (Fetch req # map (\<lambda>k. OnChunk (concat (take (Suc k) fs))) [0..<length fs],
      case fl of Some e \<Rightarrow> Inl e | None \<Rightarrow> Inr (concat fs))"
  using consume_events [of fs "[]" "[Fetch req]"] consume_text [of fs "[]" "[Fetch req]"]
  by (cases "consume fs [] [Fetch req]") (simp add: read_stream_def split: option.splits)

section \<open>The log under the handlers\<close>

lemma update_last_Nil: "update_last p [] = []"
  by (simp add: update_last_def)

lemma update_last_snoc:
  "update_last p (xs @ [c]) = xs @ [c\<lparr>assistant := \<lparr>role = Assistant, content = p\<rparr>\<rparr>]"
  by (simp add: update_last_def Let_def)

lemma length_update_last: "length (update_last p l) = length l"
  by (simp add: update_last_def Let_def)

lemma foldl_update_last_snoc:
  "foldl (\<lambda>l p. update_last p l) (xs @ [c]) ps =
     xs @ [if ps = [] then c else c\<lparr>assistant := \<lparr>role = Assistant, content = last ps\<rparr>\<rparr>]"
proof (induction ps arbitrary: c)
  case Nil
  show ?case by simp
next
  case (Cons p ps)
  show ?case
    by (simp add: update_last_snoc Cons.IH)
qed

lemma perform_trace_conversations:
  "conversations (foldl perform st tr) =
     foldl (\<lambda>l p. update_last p l) (conversations st) (onChunk_calls tr)"
proof (induction tr arbitrary: st)
  case Nil
  show ?case by simp
next
  case (Cons e tr)
  show ?case by (cases e) (simp_all add: Cons.IH)
qed

lemma perform_trace_requests:
  "requests (foldl perform st tr) = requests st @ fetch_calls tr"
proof (induction tr arbitrary: st)
  case Nil
  show ?case by simp
next
  case (Cons e tr)
  show ?case by (cases e) (simp_all add: Cons.IH)
qed

lemma read_stream_fetch_calls: "fetch_calls (fst (read_stream req answer)) = [req]"
proof (cases answer)
  case (Inl e)
  then show ?thesis by (simp add: read_stream_def)
next
  case (Inr response)
  show ?thesis
  proof (cases "body response")
    case None
    with Inr show ?thesis by (simp add: read_stream_def)
  next
    case (Some reader)
    obtain fs fl where r: "reader = Stream fs fl" by (cases reader)
    from read_stream_body [of response fs fl req] Some r Inr show ?thesis
      by (simp add: fetch_calls_map)
  qed
qed

lemma handleSubmit_conversations:
  "trim (userQuery st) \<noteq> [] \<Longrightarrow>
   conversations (handleSubmit fetch st) =
     foldl (\<lambda>l p. update_last p l) (conversations st @ [chat_card (trim (userQuery st))])
       (onChunk_calls (fst (streamChat fetch (articleUrl st) (trim (userQuery st))
          (integrator_name (integrator st)) (model st))))"
  by (simp add: handleSubmit_def Let_def append_card_def perform_trace_conversations
      case_prod_beta split: sum.splits)

lemma handleSubmit_requests:
  "trim (userQuery st) \<noteq> [] \<Longrightarrow>
   requests (handleSubmit fetch st) =
     requests st @ [chat_request (articleUrl st) (trim (userQuery st))
          (integrator_name (integrator st)) (model st)]"
  by (simp add: handleSubmit_def Let_def perform_trace_requests streamChat_def
      read_stream_fetch_calls case_prod_beta split: sum.splits)

lemma handleSuggestArticles_conversations:
  "articleUrl st \<noteq> [] \<Longrightarrow>
   conversations (handleSuggestArticles fetch st) =
     foldl (\<lambda>l p. update_last p l) (conversations st @ [suggestions_card])
       (onChunk_calls (fst (streamSuggestions fetch (articleUrl st)
          (integrator_name (integrator st)))))"
  by (simp add: handleSuggestArticles_def Let_def append_card_def perform_trace_conversations
      case_prod_beta split: sum.splits)

lemma handleSuggestArticles_requests:
  "articleUrl st \<noteq> [] \<Longrightarrow>
   requests (handleSuggestArticles fetch st) =
     requests st @ [suggestions_request (articleUrl st) (integrator_name (integrator st))]"
  by (simp add: handleSuggestArticles_def Let_def perform_trace_requests streamSuggestions_def
      read_stream_fetch_calls case_prod_beta split: sum.splits)

text \<open>The tests the two handlers start with: the article reference for a suggestions
  submit, the trimmed query for a chat submit. A submit that fails its test leaves the
  state as it is.\<close>

lemma handler_guards:
  "(articleUrl st = [] \<longrightarrow>
      handleSuggestArticles fetch st = st \<and>
      requests (handleSuggestArticles fetch st) = requests st \<and>
      conversations (handleSuggestArticles fetch st) = conversations st) \<and>
   (trim (userQuery st) = [] \<longrightarrow>
      handleSubmit fetch st = st \<and>
      requests (handleSubmit fetch st) = requests st \<and>
      conversations (handleSubmit fetch st) = conversations st)"
  by (simp add: handleSuggestArticles_def handleSubmit_def)

lemma card_inv_update:
  "card_inv c \<Longrightarrow> card_inv (c\<lparr>assistant := \<lparr>role = Assistant, content = p\<rparr>\<rparr>)"
  by (simp add: card_inv_def)

lemma log_step_cases:
  assumes "log_step l l'"
  shows "(\<exists>q. l' = l @ [chat_card q]) \<or> l' = l @ [suggestions_card] \<or>
         (\<exists>p xs c. l = xs @ [c] \<and> l' = xs @ [c\<lparr>assistant := \<lparr>role = Assistant, content = p\<rparr>\<rparr>])"
  using assms
proof cases
  case (submit_chat userMessage)
  then show ?thesis by (auto simp: append_card_def)
next
  case submit_suggestions
  then show ?thesis by (simp add: append_card_def)
next
  case (streamed partialResponse)
  then obtain xs c where "l = xs @ [c]" by (cases l rule: rev_cases) auto
  with streamed show ?thesis by (auto simp: update_last_snoc)
qed

lemma log_step_inv:
  assumes "log_step l l'" and "list_all card_inv l"
  shows "list_all card_inv l'"
  using log_step_cases [OF assms(1)] assms(2)
  by (auto simp: chat_card_def suggestions_card_def card_inv_def)

lemma reachable_inv: "reachable l \<Longrightarrow> list_all card_inv l"
  by (induction rule: reachable.induct) (auto intro: log_step_inv)

lemma reachable_updates:
  "reachable l \<Longrightarrow> l \<noteq> [] \<Longrightarrow> reachable (foldl (\<lambda>l p. update_last p l) l ps)"
proof (induction ps arbitrary: l)
  case Nil
  then show ?case by simp
next
  case (Cons p ps)
  have "reachable (update_last p l)"
    using Cons.prems by (auto intro: reachable.step log_step.streamed)
  moreover have "update_last p l \<noteq> []"
    using Cons.prems(2) length_update_last [of p l] by (metis length_0_conv)
  ultimately show ?case using Cons.IH by simp
qed

lemma handleSubmit_reachable:
  assumes "reachable (conversations st)"
  shows "reachable (conversations (handleSubmit fetch st))"
proof (cases "trim (userQuery st) = []")
  case True
  with assms show ?thesis by (simp add: handleSubmit_def)
next
  case False
  have "reachable (conversations st @ [chat_card (trim (userQuery st))])"
    using assms log_step.submit_chat [of "conversations st" "trim (userQuery st)"]
    by (auto intro: reachable.step simp: append_card_def)
  then show ?thesis
    using False by (simp add: handleSubmit_conversations reachable_updates)
qed

lemma handleSuggestArticles_reachable:
  assumes "reachable (conversations st)"
  shows "reachable (conversations (handleSuggestArticles fetch st))"
proof (cases "articleUrl st = []")
  case True
  with assms show ?thesis by (simp add: handleSuggestArticles_def)
next
  case False
  have "reachable (conversations st @ [suggestions_card])"
    using assms log_step.submit_suggestions [of "conversations st"]
    by (auto intro: reachable.step simp: append_card_def)
  then show ?thesis
    using False by (simp add: handleSuggestArticles_conversations reachable_updates)
qed

lemma last_cumulative:
  "fs \<noteq> [] \<Longrightarrow> last (map (\<lambda>k. concat (take (Suc k) fs)) [0..<length fs]) = concat fs"
proof -
  assume "fs \<noteq> []"
  then obtain n where n: "length fs = Suc n" by (cases fs) auto
  then show ?thesis by simp
qed

lemma streamed_card:
  "foldl (\<lambda>l p. update_last p l) (xs @ [\<lparr>user = u, assistant = \<lparr>role = Assistant, content = []\<rparr>\<rparr>])
     (map (\<lambda>k. concat (take (Suc k) fs)) [0..<length fs]) =
   xs @ [\<lparr>user = u, assistant = \<lparr>role = Assistant, content = concat fs\<rparr>\<rparr>]"
proof (cases "fs = []")
  case True
  then show ?thesis by simp
next
  case False
  then have "map (\<lambda>k. concat (take (Suc k) fs)) [0..<length fs] \<noteq> []" by simp
  with last_cumulative [OF False] show ?thesis
    by (simp only: foldl_update_last_snoc) simp
qed

lemma handleSubmit_streamed:
  assumes "trim (userQuery st) \<noteq> []"
    and "fetch (chat_request (articleUrl st) (trim (userQuery st))
           (integrator_name (integrator st)) (model st)) = Inr response"
    and "body response = Some (Stream fs fl)"
  shows "conversations (handleSubmit fetch st) =
     conversations st @ [\<lparr>user = \<lparr>role = User, content = trim (userQuery st)\<rparr>,
        assistant = \<lparr>role = Assistant, content = concat fs\<rparr>\<rparr>]"
  using assms(1,2) read_stream_body [OF assms(3)]
  by (simp add: handleSubmit_conversations streamChat_def onChunk_calls_map chat_card_def
      streamed_card)

lemma handleSuggestArticles_streamed:
  assumes "articleUrl st \<noteq> []"
    and "fetch (suggestions_request (articleUrl st) (integrator_name (integrator st))) =
           Inr response"
    and "body response = Some (Stream fs fl)"
  shows "conversations (handleSuggestArticles fetch st) =
     conversations st @ [\<lparr>user = \<lparr>role = User, content = ''Suggested Articles:''\<rparr>,
        assistant = \<lparr>role = Assistant, content = concat fs\<rparr>\<rparr>]"
  using assms(1,2) read_stream_body [OF assms(3)]
  by (simp add: handleSuggestArticles_conversations streamSuggestions_def onChunk_calls_map
      suggestions_card_def streamed_card)

lemma handleSubmit_no_body:
  assumes "trim (userQuery st) \<noteq> []"
    and "fetch (chat_request (articleUrl st) (trim (userQuery st))
           (integrator_name (integrator st)) (model st)) = Inr response"
    and "body response = None"
  shows "conversations (handleSubmit fetch st) =
     conversations st @ [chat_card (trim (userQuery st))]"
  using assms
  by (simp add: handleSubmit_conversations streamChat_def read_stream_def)

lemma handleSuggestArticles_no_body:
  assumes "articleUrl st \<noteq> []"
    and "fetch (suggestions_request (articleUrl st) (integrator_name (integrator st))) =
           Inr response"
    and "body response = None"
  shows "conversations (handleSuggestArticles fetch st) =
     conversations st @ [suggestions_card]"
  using assms
  by (simp add: handleSuggestArticles_conversations streamSuggestions_def read_stream_def)

lemma handleSubmit_appends:
  assumes "trim (userQuery st) \<noteq> []"
  shows "\<exists>a. conversations (handleSubmit fetch st) =
     conversations st @ [\<lparr>user = \<lparr>role = User, content = trim (userQuery st)\<rparr>, assistant = a\<rparr>]"
  using assms
  by (simp add: handleSubmit_conversations foldl_update_last_snoc chat_card_def)

lemma handleSuggestArticles_appends:
  assumes "articleUrl st \<noteq> []"
  shows "\<exists>a. conversations (handleSuggestArticles fetch st) =
     conversations st @ [\<lparr>user = \<lparr>role = User, content = ''Suggested Articles:''\<rparr>, assistant = a\<rparr>]"
  using assms
  by (simp add: handleSuggestArticles_conversations foldl_update_last_snoc suggestions_card_def)

lemma perform_trace_console:
  "console_errors (foldl perform st tr) = console_errors st"
proof (induction tr arbitrary: st)
  case Nil
  show ?case by simp
next
  case (Cons e tr)
  show ?case by (cases e) (simp_all add: Cons.IH)
qed

lemma handleSubmit_console:
  "trim (userQuery st) \<noteq> [] \<Longrightarrow>
   console_errors (handleSubmit fetch st) =
     console_errors st @
       (case snd (streamChat fetch (articleUrl st) (trim (userQuery st))
                   (integrator_name (integrator st)) (model st)) of
          Inl e \<Rightarrow> [(''Error streaming response:'', e)]
        | Inr fullResponse \<Rightarrow> [])"
  by (simp add: handleSubmit_def Let_def perform_trace_console case_prod_beta
      split: sum.splits)

lemma handleSuggestArticles_console:
  "articleUrl st \<noteq> [] \<Longrightarrow>
   console_errors (handleSuggestArticles fetch st) =
     console_errors st @
       (case snd (streamSuggestions fetch (articleUrl st) (integrator_name (integrator st))) of
          Inl e \<Rightarrow> [(''Error streaming suggestions:'', e)]
        | Inr fullResponse \<Rightarrow> [])"
  by (simp add: handleSuggestArticles_def Let_def perform_trace_console case_prod_beta
      split: sum.splits)

text \<open>Data the schema rejects never reach the handler: no request is issued.\<close>

lemma processArticle_rejected:
  "\<not> processArticleSchema is_url u i c \<Longrightarrow>
   processArticle fetch JSON_parse Number_toString is_url u i c = ([], Inl ZodError)"
  by (simp add: processArticle_def)

lemma get_prop_total:
  "v \<noteq> JUndefined \<Longrightarrow> v \<noteq> JNull \<Longrightarrow> \<exists>m. get_prop v k = Inr m"
  by (cases v) simp_all

section \<open>The banner over time\<close>

lemma elapse_idle: "timer b = None \<Longrightarrow> foldl (\<lambda>b d. elapse d b) b ds = b"
  by (induction ds) (simp_all add: elapse_def)

lemma elapse_pending:
  assumes "error b \<noteq> []" and "timer b = Some r" and "0 < r"
  shows "foldl (\<lambda>b d. elapse d b) b ds =
           (if sum_list ds < r then b\<lparr>timer := Some (r - sum_list ds)\<rparr>
            else b\<lparr>error := [], timer := None\<rparr>)"
  using assms
proof (induction ds arbitrary: b r)
  case Nil
  then show ?case by simp
next
  case (Cons d ds)
  show ?case
  proof (cases "d < r")
    case True
    then have e: "elapse d b = b\<lparr>timer := Some (r - d)\<rparr>"
      using Cons.prems by (simp add: elapse_def)
    have "error (elapse d b) \<noteq> []" and "timer (elapse d b) = Some (r - d)"
      and "0 < r - d"
      using Cons.prems e True by simp_all
    from Cons.IH [OF this] True e show ?thesis
      by (auto simp: algebra_simps)
  next
    case False
    then have e: "elapse d b = b\<lparr>error := [], timer := None\<rparr>"
      using Cons.prems
      by (simp add: elapse_def setError_def error_effect_def error_cleanup_def)
    then have "timer (elapse d b) = None" by simp
    from elapse_idle [OF this] e False show ?thesis by simp
  qed
qed

section \<open>Claims\<close>

text \<open>
  C1. When the request is answered by a response whose body yields the fragments
  \<open>f1 .. fn\<close> and then ends, \<^verbatim>\<open>streamChat\<close> and \<^verbatim>\<open>streamSuggestions\<close> return the
  concatenation \<open>f1 + ... + fn\<close>, and call \<^verbatim>\<open>onChunk\<close> exactly \<open>n\<close> times, the \<open>k\<close>-th
  call with the prefix \<open>f1 + ... + fk\<close>, in that order.
\<close>

theorem stream_aggregation:
  assumes "body response = Some (Stream fs None)"
  shows "(fetch (chat_request u q i m) = Inr response \<longrightarrow>
            snd (streamChat fetch u q i m) = Inr (concat fs) \<and>
            onChunk_calls (fst (streamChat fetch u q i m)) =
              map (\<lambda>k. concat (take (Suc k) fs)) [0..<length fs] \<and>
            length (onChunk_calls (fst (streamChat fetch u q i m))) = length fs) \<and>
         (fetch (suggestions_request u i) = Inr response \<longrightarrow>
            snd (streamSuggestions fetch u i) = Inr (concat fs) \<and>
            onChunk_calls (fst (streamSuggestions fetch u i)) =
              map (\<lambda>k. concat (take (Suc k) fs)) [0..<length fs] \<and>
            length (onChunk_calls (fst (streamSuggestions fetch u i))) = length fs)"
  using read_stream_body [OF assms]
  by (simp add: streamChat_def streamSuggestions_def onChunk_calls_map)

theorem stream_aggregation_witness:
  "snd (streamChat
         (\<lambda>r. Inr \<lparr>status = 200, body = Some (Stream [''The'', '' article'', '' discusses X.''] None)\<rparr>)
         ''http://a.example'' ''What is the article about?'' ''openai'' ''gpt-4o'') =
     Inr ''The article discusses X.'' \<and>
   onChunk_calls (fst (streamChat
         (\<lambda>r. Inr \<lparr>status = 200, body = Some (Stream [''The'', '' article'', '' discusses X.''] None)\<rparr>)
         ''http://a.example'' ''What is the article about?'' ''openai'' ''gpt-4o'')) =
     [''The'', ''The article'', ''The article discusses X.''] \<and>
   snd (streamSuggestions
         (\<lambda>r. Inr \<lparr>status = 200, body = Some (Stream [''The'', '' article'', '' discusses X.''] None)\<rparr>)
         ''http://a.example'' ''openai'') =
     Inr ''The article discusses X.'' \<and>
   onChunk_calls (fst (streamSuggestions
         (\<lambda>r. Inr \<lparr>status = 200, body = Some (Stream [''The'', '' article'', '' discusses X.''] None)\<rparr>)
         ''http://a.example'' ''openai'')) =
     [''The'', ''The article'', ''The article discusses X.'']"
  using stream_aggregation
    [of "\<lparr>status = 200, body = Some (Stream [''The'', '' article'', '' discusses X.''] None)\<rparr>"
        "[''The'', '' article'', '' discusses X.'']"
        "\<lambda>r. Inr \<lparr>status = 200, body = Some (Stream [''The'', '' article'', '' discusses X.''] None)\<rparr>"
        "''http://a.example''" "''What is the article about?''" "''openai''" "''gpt-4o''"]
  by (simp add: upt_conv_Cons)

text \<open>
  C2, as stated, fails. \<^verbatim>\<open>streamChat\<close> and \<^verbatim>\<open>streamSuggestions\<close> never read the
  status: a response of status 500 is aggregated and returned like any other.
  \<^verbatim>\<open>processArticle\<close> does fail on such a response, but what it throws is built from
  the \<^verbatim>\<open>error\<close> field of the parsed body alone: two responses that differ in status and
  in body give the same failure.
\<close>

theorem status_unchecked_counterexample:
  \<open>\<not> ok \<lparr>status = 500, body = Some (Stream [''[{"message":"rate limited"}]''] None)\<rparr> \<and>
   streamChat
     (\<lambda>r. Inr \<lparr>status = 500, body = Some (Stream [''[{"message":"rate limited"}]''] None)\<rparr>)
     ''http://a.example'' ''hi'' ''openai'' [] =
     ([Fetch (chat_request ''http://a.example'' ''hi'' ''openai'' []),
       OnChunk ''[{"message":"rate limited"}]''],
      Inr ''[{"message":"rate limited"}]'') \<and>
   streamSuggestions
     (\<lambda>r. Inr \<lparr>status = 500, body = Some (Stream [''[{"message":"rate limited"}]''] None)\<rparr>)
     ''http://a.example'' ''openai'' =
     ([Fetch (suggestions_request ''http://a.example'' ''openai''),
       OnChunk ''[{"message":"rate limited"}]''],
      Inr ''[{"message":"rate limited"}]'') \<and>
   \<not> ok \<lparr>status = 500, body = Some (Stream [''{"error":"boom"}''] None)\<rparr> \<and>
   \<not> ok \<lparr>status = 404, body = Some (Stream [''{"error":"boom","detail":"x"}''] None)\<rparr> \<and>
   snd (processArticle
     (\<lambda>r. Inr \<lparr>status = 500, body = Some (Stream [''{"error":"boom"}''] None)\<rparr>)
     (map_of [(''{"error":"boom"}'', JObj [(''error'', JStr ''boom'')]),
              (''{"error":"boom","detail":"x"}'',
               JObj [(''error'', JStr ''boom''), (''detail'', JStr ''x'')])])
     (\<lambda>n. ''0'') (\<lambda>u. u = ''http://a.example'')
     ''http://a.example'' ''openai'' ''20'') = Inl (Error ''boom'') \<and>
   snd (processArticle
     (\<lambda>r. Inr \<lparr>status = 404, body = Some (Stream [''{"error":"boom","detail":"x"}''] None)\<rparr>)
     (map_of [(''{"error":"boom"}'', JObj [(''error'', JStr ''boom'')]),
              (''{"error":"boom","detail":"x"}'',
               JObj [(''error'', JStr ''boom''), (''detail'', JStr ''x'')])])
     (\<lambda>n. ''0'') (\<lambda>u. u = ''http://a.example'')
     ''http://a.example'' ''openai'' ''20'') = Inl (Error ''boom'')\<close>
  by (simp add: ok_def streamChat_def streamSuggestions_def read_stream_def processArticle_def
      processArticleSchema_def response_json_def Let_def)

text \<open>
  C2, amended. When the data pass the schema, the response to \<^verbatim>\<open>processArticle\<close> has a
  non-success status and its body parses as a JSON value other than \<^verbatim>\<open>null\<close>, the call
  issues the one request, logs the parsed body and fails. What it throws is made from the
  \<^verbatim>\<open>error\<close> field of the body alone: an \<^verbatim>\<open>Error\<close> with the message
  \<open>Failed to process article\<close> when the field is missing or falsy; an \<^verbatim>\<open>Error\<close> whose
  message is the field when the field is a non-empty string; and for any other truthy
  field an \<^verbatim>\<open>Error\<close> whose message is the field converted to a string, or the
  \<open>TypeError\<close> of that conversion when it throws.
\<close>

theorem processArticle_remote_failure:
  assumes "processArticleSchema is_url u i c"
    and "fetch (process_request u i c) = Inr response"
    and "\<not> ok response"
    and "response_json JSON_parse response = Inr errorResponse"
    and "errorResponse \<noteq> JNull" and "errorResponse \<noteq> JUndefined"
  shows "\<exists>err thrown.
           get_prop errorResponse ''error'' = Inr err \<and>
           processArticle fetch JSON_parse Number_toString is_url u i c =
             ([Fetch (process_request u i c), ConsoleLog errorResponse], Inl thrown) \<and>
           (\<not> truthy err \<longrightarrow> thrown = Error ''Failed to process article'') \<and>
           (\<forall>s. err = JStr s \<and> s \<noteq> [] \<longrightarrow> thrown = Error s) \<and>
           (truthy err \<longrightarrow>
              thrown = (case ToString Number_toString err of
                          Inr msg \<Rightarrow> Error msg
                        | Inl e \<Rightarrow> e))"
proof -
  from assms(5,6) obtain err where err: "get_prop errorResponse ''error'' = Inr err"
    by (cases errorResponse) simp_all
  define thrown where "thrown =
    (case ToString Number_toString
            (if truthy err then err else JStr ''Failed to process article'') of
       Inr msg \<Rightarrow> Error msg
     | Inl e \<Rightarrow> e)"
  have run: "processArticle fetch JSON_parse Number_toString is_url u i c =
      ([Fetch (process_request u i c), ConsoleLog errorResponse], Inl thrown)"
    unfolding processArticle_def thrown_def using assms(1-4) err
    by (simp split: sum.splits)
  have falsy: "thrown = Error ''Failed to process article''" if "\<not> truthy err"
    using that by (simp add: thrown_def)
  have str: "thrown = Error s" if "err = JStr s \<and> s \<noteq> []" for s
    using that by (simp add: thrown_def)
  have any: "thrown = (case ToString Number_toString err of Inr msg \<Rightarrow> Error msg | Inl e \<Rightarrow> e)"
    if "truthy err"
    using that by (simp add: thrown_def)
  show ?thesis
  proof (rule exI [of _ err], rule exI [of _ thrown], intro conjI allI impI)
    show "get_prop errorResponse ''error'' = Inr err" by (rule err)
    show "processArticle fetch JSON_parse Number_toString is_url u i c =
      ([Fetch (process_request u i c), ConsoleLog errorResponse], Inl thrown)" by (rule run)
    show "thrown = Error ''Failed to process article''" if "\<not> truthy err"
      using that by (rule falsy)
    show "thrown = Error s" if "err = JStr s \<and> s \<noteq> []" for s
      using that by (rule str)
    show "thrown = (case ToString Number_toString err of Inr msg \<Rightarrow> Error msg | Inl e \<Rightarrow> e)"
      if "truthy err"
      using that by (rule any)
  qed
qed

theorem processArticle_remote_failure_witness:
  \<open>processArticle
     (\<lambda>r. Inr \<lparr>status = 500, body = Some (Stream [''{"error":"boom"}''] None)\<rparr>)
     (map_of [(''{"error":"boom"}'', JObj [(''error'', JStr ''boom'')]),
              (''[{"message":"rate limited"}]'',
               JArr [JObj [(''message'', JStr ''rate limited'')]]),
              (''{"error":{"toString":1}}'',
               JObj [(''error'', JObj [(''toString'', JNum (Finite 1))])])])
     (\<lambda>n. ''0'') (\<lambda>u. u = ''http://a.example'')
     ''http://a.example'' ''openai'' ''20'' =
     ([Fetch (process_request ''http://a.example'' ''openai'' ''20''),
       ConsoleLog (JObj [(''error'', JStr ''boom'')])], Inl (Error ''boom'')) \<and>
   processArticle
     (\<lambda>r. Inr \<lparr>status = 500, body = Some (Stream [''[{"message":"rate limited"}]''] None)\<rparr>)
     (map_of [(''{"error":"boom"}'', JObj [(''error'', JStr ''boom'')]),
              (''[{"message":"rate limited"}]'',
               JArr [JObj [(''message'', JStr ''rate limited'')]]),
              (''{"error":{"toString":1}}'',
               JObj [(''error'', JObj [(''toString'', JNum (Finite 1))])])])
     (\<lambda>n. ''0'') (\<lambda>u. u = ''http://a.example'')
     ''http://a.example'' ''openai'' ''20'' =
     ([Fetch (process_request ''http://a.example'' ''openai'' ''20''),
       ConsoleLog (JArr [JObj [(''message'', JStr ''rate limited'')]])],
      Inl (Error ''Failed to process article'')) \<and>
   processArticle
     (\<lambda>r. Inr \<lparr>status = 500, body = Some (Stream [''{"error":{"toString":1}}''] None)\<rparr>)
     (map_of [(''{"error":"boom"}'', JObj [(''error'', JStr ''boom'')]),
              (''[{"message":"rate limited"}]'',
               JArr [JObj [(''message'', JStr ''rate limited'')]]),
              (''{"error":{"toString":1}}'',
               JObj [(''error'', JObj [(''toString'', JNum (Finite 1))])])])
     (\<lambda>n. ''0'') (\<lambda>u. u = ''http://a.example'')
     ''http://a.example'' ''openai'' ''20'' =
     ([Fetch (process_request ''http://a.example'' ''openai'' ''20''),
       ConsoleLog (JObj [(''error'', JObj [(''toString'', JNum (Finite 1))])])],
      Inl TypeError)\<close>
proof -
  let ?parse = \<open>map_of [(''{"error":"boom"}'', JObj [(''error'', JStr ''boom'')]),
              (''[{"message":"rate limited"}]'',
               JArr [JObj [(''message'', JStr ''rate limited'')]]),
              (''{"error":{"toString":1}}'',
               JObj [(''error'', JObj [(''toString'', JNum (Finite 1))])])]\<close>
  let ?N = "\<lambda>n::jsnum. ''0''"
  let ?is_url = "\<lambda>u. u = ''http://a.example''"
  let ?r1 = \<open>\<lparr>status = 500, body = Some (Stream [''{"error":"boom"}''] None)\<rparr>\<close>
  let ?r2 = \<open>\<lparr>status = 500, body = Some (Stream [''[{"message":"rate limited"}]''] None)\<rparr>\<close>
  let ?r3 = \<open>\<lparr>status = 500, body = Some (Stream [''{"error":{"toString":1}}''] None)\<rparr>\<close>
  have v: "processArticleSchema ?is_url ''http://a.example'' ''openai'' ''20''"
    by (simp add: processArticleSchema_def)
  have n1: "\<not> ok ?r1" and n2: "\<not> ok ?r2" and n3: "\<not> ok ?r3" by (simp_all add: ok_def)
  have j1: "response_json ?parse ?r1 = Inr (JObj [(''error'', JStr ''boom'')])"
    by (simp add: response_json_def)
  have j2: "response_json ?parse ?r2 = Inr (JArr [JObj [(''message'', JStr ''rate limited'')]])"
    by (simp add: response_json_def)
  have j3: "response_json ?parse ?r3 =
      Inr (JObj [(''error'', JObj [(''toString'', JNum (Finite 1))])])"
    by (simp add: response_json_def)
  have f1: "(\<lambda>r. Inr ?r1) (process_request ''http://a.example'' ''openai'' ''20'') = Inr ?r1"
    and f2: "(\<lambda>r. Inr ?r2) (process_request ''http://a.example'' ''openai'' ''20'') = Inr ?r2"
    and f3: "(\<lambda>r. Inr ?r3) (process_request ''http://a.example'' ''openai'' ''20'') = Inr ?r3"
    by simp_all
  from processArticle_remote_failure [of ?is_url _ _ _ "\<lambda>r. Inr ?r1", OF v f1 n1 j1, of ?N]
  have a: "processArticle (\<lambda>r. Inr ?r1) ?parse ?N ?is_url ''http://a.example'' ''openai'' ''20'' =
     ([Fetch (process_request ''http://a.example'' ''openai'' ''20''),
       ConsoleLog (JObj [(''error'', JStr ''boom'')])], Inl (Error ''boom''))"
    by auto
  from processArticle_remote_failure [of ?is_url _ _ _ "\<lambda>r. Inr ?r2", OF v f2 n2 j2, of ?N]
  have b: "processArticle (\<lambda>r. Inr ?r2) ?parse ?N ?is_url ''http://a.example'' ''openai'' ''20'' =
     ([Fetch (process_request ''http://a.example'' ''openai'' ''20''),
       ConsoleLog (JArr [JObj [(''message'', JStr ''rate limited'')]])],
      Inl (Error ''Failed to process article''))"
    by auto
  from processArticle_remote_failure [of ?is_url _ _ _ "\<lambda>r. Inr ?r3", OF v f3 n3 j3, of ?N]
  have c: "processArticle (\<lambda>r. Inr ?r3) ?parse ?N ?is_url ''http://a.example'' ''openai'' ''20'' =
     ([Fetch (process_request ''http://a.example'' ''openai'' ''20''),
       ConsoleLog (JObj [(''error'', JObj [(''toString'', JNum (Finite 1))])])],
      Inl TypeError)"
    by auto
  from a b c show ?thesis by (intro conjI)
qed

text \<open>
  C3. The code does not keep the claim for the chat submit. \<^verbatim>\<open>handleSubmit\<close> tests the
  trimmed query and never the article reference: with no article and the query \<open>hi\<close> it
  appends a card and issues the request, where \<^verbatim>\<open>handleSuggestArticles\<close>, in the same
  state, returns at once.
\<close>

theorem chat_submit_without_article:
  "articleUrl (initial_state\<lparr>userQuery := ''hi''\<rparr>) = [] \<and>
   conversations (handleSubmit (\<lambda>r. Inl TypeError) (initial_state\<lparr>userQuery := ''hi''\<rparr>)) =
     [chat_card ''hi''] \<and>
   requests (handleSubmit (\<lambda>r. Inl TypeError) (initial_state\<lparr>userQuery := ''hi''\<rparr>)) =
     [chat_request [] ''hi'' ''openai'' []] \<and>
   handleSuggestArticles (\<lambda>r. Inl TypeError) (initial_state\<lparr>userQuery := ''hi''\<rparr>) =
     initial_state\<lparr>userQuery := ''hi''\<rparr>"
  by (simp add: handleSubmit_conversations handleSubmit_requests trim_def is_space_def
      initial_state_def streamChat_def read_stream_def handleSuggestArticles_def)

text \<open>
  C4, as stated, fails for the chat submit: the card holds the trimmed query, which is not
  the submitted text when that starts or ends with white space.
\<close>

theorem chat_card_trimmed_counterexample:
  "userQuery (initial_state\<lparr>articleUrl := ''http://a.example'', userQuery := '' hi''\<rparr>) = '' hi'' \<and>
   content (user (last (conversations (handleSubmit
      (\<lambda>r. Inr \<lparr>status = 200, body = Some (Stream [''ok''] None)\<rparr>)
      (initial_state\<lparr>articleUrl := ''http://a.example'', userQuery := '' hi''\<rparr>))))) \<noteq>
     userQuery (initial_state\<lparr>articleUrl := ''http://a.example'', userQuery := '' hi''\<rparr>) \<and>
   conversations (handleSubmit
      (\<lambda>r. Inr \<lparr>status = 200, body = Some (Stream [''ok''] None)\<rparr>)
      (initial_state\<lparr>articleUrl := ''http://a.example'', userQuery := '' hi''\<rparr>)) =
     [\<lparr>user = \<lparr>role = User, content = ''hi''\<rparr>,
       assistant = \<lparr>role = Assistant, content = ''ok''\<rparr>\<rparr>]"
  using handleSubmit_streamed
    [of "initial_state\<lparr>articleUrl := ''http://a.example'', userQuery := '' hi''\<rparr>"
        "\<lambda>r. Inr \<lparr>status = 200, body = Some (Stream [''ok''] None)\<rparr>"
        "\<lparr>status = 200, body = Some (Stream [''ok''] None)\<rparr>" "[''ok'']" None]
  by (simp add: initial_state_def trim_def is_space_def)

text \<open>
  C4, amended. A submit that passes its handler's test adds exactly one card at the end
  of the log, whatever the stream then does; the user message of that card has the role
  \<open>user\<close> and, as content, the submitted query with leading and trailing white space
  removed (chat) or the text \<open>Suggested Articles:\<close> (suggestions).
\<close>

theorem log_growth:
  "(trim (userQuery st) \<noteq> [] \<longrightarrow>
      length (conversations (handleSubmit fetch st)) = length (conversations st) + 1 \<and>
      butlast (conversations (handleSubmit fetch st)) = conversations st \<and>
      user (last (conversations (handleSubmit fetch st))) =
        \<lparr>role = User, content = trim (userQuery st)\<rparr>) \<and>
   (articleUrl st \<noteq> [] \<longrightarrow>
      length (conversations (handleSuggestArticles fetch st)) = length (conversations st) + 1 \<and>
      butlast (conversations (handleSuggestArticles fetch st)) = conversations st \<and>
      user (last (conversations (handleSuggestArticles fetch st))) =
        \<lparr>role = User, content = ''Suggested Articles:''\<rparr>)"
proof (intro conjI impI)
  assume q: "trim (userQuery st) \<noteq> []"
  from handleSubmit_appends [OF q, of fetch] obtain a where
    "conversations (handleSubmit fetch st) =
       conversations st @ [\<lparr>user = \<lparr>role = User, content = trim (userQuery st)\<rparr>, assistant = a\<rparr>]"
    by blast
  then show "length (conversations (handleSubmit fetch st)) = length (conversations st) + 1"
    and "butlast (conversations (handleSubmit fetch st)) = conversations st"
    and "user (last (conversations (handleSubmit fetch st))) =
        \<lparr>role = User, content = trim (userQuery st)\<rparr>"
    by simp_all
next
  assume u: "articleUrl st \<noteq> []"
  from handleSuggestArticles_appends [OF u, of fetch] obtain a where
    "conversations (handleSuggestArticles fetch st) =
       conversations st @ [\<lparr>user = \<lparr>role = User, content = ''Suggested Articles:''\<rparr>, assistant = a\<rparr>]"
    by blast
  then show "length (conversations (handleSuggestArticles fetch st)) = length (conversations st) + 1"
    and "butlast (conversations (handleSuggestArticles fetch st)) = conversations st"
    and "user (last (conversations (handleSuggestArticles fetch st))) =
        \<lparr>role = User, content = ''Suggested Articles:''\<rparr>"
    by simp_all
qed

theorem log_growth_witness:
  "trim (userQuery (initial_state\<lparr>articleUrl := ''http://a.example'', userQuery := '' hi ''\<rparr>)) = ''hi'' \<and>
   length (conversations (handleSubmit
      (\<lambda>r. Inr \<lparr>status = 200, body = Some (Stream [''ok''] None)\<rparr>)
      (initial_state\<lparr>articleUrl := ''http://a.example'', userQuery := '' hi ''\<rparr>))) = 1 \<and>
   user (last (conversations (handleSubmit
      (\<lambda>r. Inr \<lparr>status = 200, body = Some (Stream [''ok''] None)\<rparr>)
      (initial_state\<lparr>articleUrl := ''http://a.example'', userQuery := '' hi ''\<rparr>)))) =
     \<lparr>role = User, content = ''hi''\<rparr> \<and>
   length (conversations (handleSuggestArticles
      (\<lambda>r. Inr \<lparr>status = 200, body = Some (Stream [''ok''] None)\<rparr>)
      (initial_state\<lparr>articleUrl := ''http://a.example'', userQuery := '' hi ''\<rparr>))) = 1 \<and>
   user (last (conversations (handleSuggestArticles
      (\<lambda>r. Inr \<lparr>status = 200, body = Some (Stream [''ok''] None)\<rparr>)
      (initial_state\<lparr>articleUrl := ''http://a.example'', userQuery := '' hi ''\<rparr>)))) =
     \<lparr>role = User, content = ''Suggested Articles:''\<rparr>"
  using log_growth
    [of "initial_state\<lparr>articleUrl := ''http://a.example'', userQuery := '' hi ''\<rparr>"
        "\<lambda>r. Inr \<lparr>status = 200, body = Some (Stream [''ok''] None)\<rparr>"]
  by (simp add: initial_state_def trim_def is_space_def)

text \<open>
  C5, as stated, fails. The classifier takes the first element's \<^verbatim>\<open>message\<close> only when
  it is truthy: for the array \<^verbatim>\<open>[{"message":""}]\<close> it returns the text of the array, not
  the empty message. And it reads \<^verbatim>\<open>error.message\<close> before its \<^verbatim>\<open>try\<close>: on \<^verbatim>\<open>null\<close>
  it throws.
\<close>

theorem classifier_falsy_message_counterexample:
  \<open>extractErrorMessage
     (map_of [(''[{"message":""}]'', JArr [JObj [(''message'', JStr [])]])]) (\<lambda>n. ''0'')
     (JObj [(''message'', JStr ''[{"message":""}]'')]) =
     Inr (JStr ''[{"message":""}]'') \<and>
   extractErrorMessage
     (map_of [(''[{"message":""}]'', JArr [JObj [(''message'', JStr [])]])]) (\<lambda>n. ''0'')
     (JObj [(''message'', JStr ''[{"message":""}]'')]) \<noteq> Inr (JStr []) \<and>
   extractErrorMessage
     (map_of [(''[{"message":""}]'', JArr [JObj [(''message'', JStr [])]])]) (\<lambda>n. ''0'')
     JNull =
     Inl TypeError\<close>
  by (simp add: extractErrorMessage_def)

text \<open>
  C5, amended. For every failure value other than \<^verbatim>\<open>null\<close> and \<^verbatim>\<open>undefined\<close>
  the classifier returns, and never throws. Let \<open>own\<close> be the failure's \<^verbatim>\<open>message\<close> when
  that is truthy and \<open>Something went wrong\<close> otherwise. The result is the \<^verbatim>\<open>message\<close> of
  the first element when \<open>own\<close>, as a string, parses as a non-empty array whose first
  element has a truthy \<^verbatim>\<open>message\<close>, and \<open>own\<close> in every other case, in particular when
  \<open>own\<close> is not JSON. A failure whose message is \<^verbatim>\<open>[{"message":"rate limited"}]\<close>
  classifies to \<open>rate limited\<close>.
\<close>

theorem error_classifier:
  assumes "thrown \<noteq> JUndefined" and "thrown \<noteq> JNull"
  shows \<open>(\<exists>m own r.
            get_prop thrown ''message'' = Inr m \<and>
            own = (if truthy m then m else JStr ''Something went wrong'') \<and>
            extractErrorMessage JSON_parse Number_toString thrown = Inr r \<and>
            (\<forall>str first rest pm.
               ToString Number_toString own = Inr str \<and>
               JSON_parse str = Some (JArr (first # rest)) \<and>
               get_prop first ''message'' = Inr pm \<and> truthy pm \<longrightarrow> r = pm) \<and>
            ((\<nexists>str first rest pm.
               ToString Number_toString own = Inr str \<and>
               JSON_parse str = Some (JArr (first # rest)) \<and>
               get_prop first ''message'' = Inr pm \<and> truthy pm) \<longrightarrow> r = own) \<and>
            (\<forall>str. ToString Number_toString own = Inr str \<and> JSON_parse str = None \<longrightarrow>
               r = own)) \<and>
         (get_prop thrown ''message'' = Inr (JStr ''[{"message":"rate limited"}]'') \<and>
          JSON_parse ''[{"message":"rate limited"}]'' =
            Some (JArr [JObj [(''message'', JStr ''rate limited'')]]) \<longrightarrow>
          extractErrorMessage JSON_parse Number_toString thrown = Inr (JStr ''rate limited''))\<close>
proof (intro conjI impI)
  from get_prop_total [OF assms] obtain m where m: "get_prop thrown ''message'' = Inr m"
    by blast
  define own where "own = (if truthy m then m else JStr ''Something went wrong'')"
  define r where "r =
    (case ToString Number_toString own of
       Inl e \<Rightarrow> own
     | Inr str \<Rightarrow>
         (case JSON_parse str of
            None \<Rightarrow> own
          | Some parsed \<Rightarrow>
              (case parsed of
                 JArr elems \<Rightarrow>
                   (if length elems > 0 then
                      (case get_prop (hd elems) ''message'' of
                         Inl e \<Rightarrow> own
                       | Inr pm \<Rightarrow> if truthy pm then pm else own)
                    else own)
               | _ \<Rightarrow> own)))"
  have res: "extractErrorMessage JSON_parse Number_toString thrown = Inr r"
    unfolding extractErrorMessage_def r_def own_def using m by (simp add: Let_def)
  have hit: "r = pm"
    if "ToString Number_toString own = Inr str \<and>
        JSON_parse str = Some (JArr (first # rest)) \<and>
        get_prop first ''message'' = Inr pm \<and> truthy pm" for str first rest pm
    using that by (simp add: r_def)
  have miss: "r = own"
    if no: "\<nexists>str first rest pm. ToString Number_toString own = Inr str \<and>
        JSON_parse str = Some (JArr (first # rest)) \<and>
        get_prop first ''message'' = Inr pm \<and> truthy pm"
  proof (cases "ToString Number_toString own")
    case (Inl e)
    then show ?thesis by (simp add: r_def)
  next
    case (Inr str)
    show ?thesis
    proof (cases "JSON_parse str")
      case None
      with Inr show ?thesis by (simp add: r_def)
    next
      case (Some parsed)
      show ?thesis
      proof (cases parsed)
        case (JArr elems)
        show ?thesis
        proof (cases elems)
          case Nil
          with Inr Some JArr show ?thesis by (simp add: r_def)
        next
          case (Cons first rest)
          with no Inr Some JArr
          have "\<And>pm. get_prop first ''message'' = Inr pm \<Longrightarrow> \<not> truthy pm"
            by blast
          with Inr Some JArr Cons show ?thesis
            by (simp add: r_def split: sum.splits)
        qed
      qed (use Inr Some in \<open>simp_all add: r_def\<close>)
    qed
  qed
  have bad: "r = own"
    if "ToString Number_toString own = Inr str \<and> JSON_parse str = None" for str
    using that by (simp add: r_def)
  show "\<exists>m own r.
            get_prop thrown ''message'' = Inr m \<and>
            own = (if truthy m then m else JStr ''Something went wrong'') \<and>
            extractErrorMessage JSON_parse Number_toString thrown = Inr r \<and>
            (\<forall>str first rest pm.
               ToString Number_toString own = Inr str \<and>
               JSON_parse str = Some (JArr (first # rest)) \<and>
               get_prop first ''message'' = Inr pm \<and> truthy pm \<longrightarrow> r = pm) \<and>
            ((\<nexists>str first rest pm.
               ToString Number_toString own = Inr str \<and>
               JSON_parse str = Some (JArr (first # rest)) \<and>
               get_prop first ''message'' = Inr pm \<and> truthy pm) \<longrightarrow> r = own) \<and>
            (\<forall>str. ToString Number_toString own = Inr str \<and> JSON_parse str = None \<longrightarrow>
               r = own)"
  proof (rule exI [of _ m], rule exI [of _ own], rule exI [of _ r], intro conjI allI impI)
    show "get_prop thrown ''message'' = Inr m" by (rule m)
    show "own = (if truthy m then m else JStr ''Something went wrong'')" by (rule own_def)
    show "extractErrorMessage JSON_parse Number_toString thrown = Inr r" by (rule res)
    show "r = pm"
      if "ToString Number_toString own = Inr str \<and>
          JSON_parse str = Some (JArr (first # rest)) \<and>
          get_prop first ''message'' = Inr pm \<and> truthy pm" for str first rest pm
      using that by (rule hit)
    show "r = own"
      if "\<nexists>str first rest pm. ToString Number_toString own = Inr str \<and>
          JSON_parse str = Some (JArr (first # rest)) \<and>
          get_prop first ''message'' = Inr pm \<and> truthy pm"
      using that by (rule miss)
    show "r = own"
      if "ToString Number_toString own = Inr str \<and> JSON_parse str = None" for str
      using that by (rule bad)
  qed
next
  assume \<open>get_prop thrown ''message'' = Inr (JStr ''[{"message":"rate limited"}]'') \<and>
          JSON_parse ''[{"message":"rate limited"}]'' =
            Some (JArr [JObj [(''message'', JStr ''rate limited'')]])\<close>
  then show "extractErrorMessage JSON_parse Number_toString thrown = Inr (JStr ''rate limited'')"
    by (simp add: extractErrorMessage_def)
qed

theorem error_classifier_witness:
  \<open>extractErrorMessage
     (map_of [(''[{"message":"rate limited"}]'', JArr [JObj [(''message'', JStr ''rate limited'')]])])
     (\<lambda>n. ''0'')
     (JObj [(''message'', JStr ''[{"message":"rate limited"}]'')]) =
     Inr (JStr ''rate limited'') \<and>
   extractErrorMessage
     (map_of [(''[{"message":"rate limited"}]'', JArr [JObj [(''message'', JStr ''rate limited'')]])])
     (\<lambda>n. ''0'')
     (JObj [(''message'', JStr ''<html>Bad Gateway</html>'')]) =
     Inr (JStr ''<html>Bad Gateway</html>'') \<and>
   extractErrorMessage
     (map_of [(''[{"message":"rate limited"}]'', JArr [JObj [(''message'', JStr ''rate limited'')]])])
     (\<lambda>n. ''0'')
     (JObj []) =
     Inr (JStr ''Something went wrong'')\<close>
proof -
  have a: \<open>JObj [(''message'', JStr ''[{"message":"rate limited"}]'')] \<noteq> JUndefined\<close>
    and b: \<open>JObj [(''message'', JStr ''[{"message":"rate limited"}]'')] \<noteq> JNull\<close>
    by simp_all
  have h: \<open>get_prop (JObj [(''message'', JStr ''[{"message":"rate limited"}]'')]) ''message'' =
        Inr (JStr ''[{"message":"rate limited"}]'') \<and>
      map_of [(''[{"message":"rate limited"}]'', JArr [JObj [(''message'', JStr ''rate limited'')]])]
        ''[{"message":"rate limited"}]'' =
        Some (JArr [JObj [(''message'', JStr ''rate limited'')]])\<close>
    by simp
  have \<open>extractErrorMessage
     (map_of [(''[{"message":"rate limited"}]'', JArr [JObj [(''message'', JStr ''rate limited'')]])])
     (\<lambda>n. ''0'')
     (JObj [(''message'', JStr ''[{"message":"rate limited"}]'')]) =
     Inr (JStr ''rate limited'')\<close>
    using error_classifier
      [OF a b, of \<open>map_of [(''[{"message":"rate limited"}]'',
         JArr [JObj [(''message'', JStr ''rate limited'')]])]\<close> "\<lambda>n. ''0''"] h
    by (elim conjE impE) (intro conjI, assumption+)
  then show ?thesis
    by (simp add: extractErrorMessage_def)
qed

text \<open>
  C6. A streamed update, the \<^verbatim>\<open>onChunk\<close> closure of \<^verbatim>\<open>handleSubmit\<close> and of
  \<^verbatim>\<open>handleSuggestArticles\<close> run on a log the component can reach, changes nothing of
  the state but the log, keeps the log's length and every card before the last, and
  keeps the last card's user message and roles: only the assistant content of the last
  card is replaced, by the text handed to \<^verbatim>\<open>onChunk\<close>.
\<close>

theorem streamed_update_frame:
  assumes "reachable (conversations st)"
  shows "perform st (OnChunk p) = st\<lparr>conversations := conversations (perform st (OnChunk p))\<rparr> \<and>
         length (conversations (perform st (OnChunk p))) = length (conversations st) \<and>
         butlast (conversations (perform st (OnChunk p))) = butlast (conversations st) \<and>
         (conversations st \<noteq> [] \<longrightarrow>
            user (last (conversations (perform st (OnChunk p)))) = user (last (conversations st)) \<and>
            role (assistant (last (conversations (perform st (OnChunk p))))) =
              role (assistant (last (conversations st))) \<and>
            content (assistant (last (conversations (perform st (OnChunk p))))) = p)"
proof (cases "conversations st" rule: rev_cases)
  case Nil
  then show ?thesis by (simp add: update_last_Nil)
next
  case (snoc xs c)
  from reachable_inv [OF assms] snoc have "card_inv c" by simp
  with snoc show ?thesis by (simp add: update_last_snoc card_inv_def)
qed

theorem streamed_update_frame_witness:
  "reachable [chat_card ''q1'', chat_card ''q2''] \<and>
   conversations (perform (initial_state\<lparr>conversations := [chat_card ''q1'', chat_card ''q2'']\<rparr>)
       (OnChunk ''The'')) =
     [chat_card ''q1'',
      \<lparr>user = \<lparr>role = User, content = ''q2''\<rparr>,
       assistant = \<lparr>role = Assistant, content = ''The''\<rparr>\<rparr>]"
proof -
  have r1: "reachable [chat_card ''q1'']"
    using reachable.step [OF reachable.initial log_step.submit_chat [of "[]" "''q1''"]]
    by (simp add: append_card_def)
  have r2: "reachable [chat_card ''q1'', chat_card ''q2'']"
    using reachable.step [OF r1 log_step.submit_chat [of "[chat_card ''q1'']" "''q2''"]]
    by (simp add: append_card_def)
  have "reachable (conversations (initial_state\<lparr>conversations := [chat_card ''q1'', chat_card ''q2'']\<rparr>))"
    using r2 by simp
  from streamed_update_frame [OF this, of "''The''"] r2 show ?thesis
    by (simp add: update_last_def chat_card_def)
qed

text \<open>
  C7. Every card of every reachable log has a user message of role \<open>user\<close> and an
  assistant message of role \<open>assistant\<close>. Each operation on a reachable log leads to a
  reachable log and either appends one card at the end or rewrites the assistant content
  of the last card: the length does not decrease and the user messages present stay as
  they are. A whole run of either handler leaves the cards that were there untouched.
\<close>

theorem log_append_only:
  assumes "reachable l"
  shows "list_all card_inv l \<and>
         (\<forall>l'. log_step l l' \<longrightarrow>
            reachable l' \<and>
            length l \<le> length l' \<and>
            map user (take (length l) l') = map user l \<and>
            ((\<exists>c. l' = l @ [c]) \<or>
             (\<exists>p. l \<noteq> [] \<and>
                  l' = butlast l @ [(last l)\<lparr>assistant := (assistant (last l))\<lparr>content := p\<rparr>\<rparr>]))) \<and>
         (\<forall>fetch st. conversations st = l \<longrightarrow>
            reachable (conversations (handleSubmit fetch st)) \<and>
            take (length l) (conversations (handleSubmit fetch st)) = l \<and>
            reachable (conversations (handleSuggestArticles fetch st)) \<and>
            take (length l) (conversations (handleSuggestArticles fetch st)) = l)"
proof (intro conjI allI impI)
  fix fetch and st :: app_state
  assume l: "conversations st = l"
  show "reachable (conversations (handleSubmit fetch st))"
    using handleSubmit_reachable [of st fetch] assms l by simp
  show "reachable (conversations (handleSuggestArticles fetch st))"
    using handleSuggestArticles_reachable [of st fetch] assms l by simp
  show "take (length l) (conversations (handleSubmit fetch st)) = l"
  proof (cases "trim (userQuery st) = []")
    case True
    with l show ?thesis by (simp add: handleSubmit_def)
  next
    case False
    from handleSubmit_appends [OF False, of fetch] l show ?thesis by auto
  qed
  show "take (length l) (conversations (handleSuggestArticles fetch st)) = l"
  proof (cases "articleUrl st = []")
    case True
    with l show ?thesis by (simp add: handleSuggestArticles_def)
  next
    case False
    from handleSuggestArticles_appends [OF False, of fetch] l show ?thesis by auto
  qed
next
  show inv: "list_all card_inv l" by (rule reachable_inv [OF assms])
  fix l'
  assume st: "log_step l l'"
  show "reachable l'" by (rule reachable.step [OF assms st])
  from log_step_cases [OF st]
  consider (app) c where "l' = l @ [c]"
    | (upd) p xs c where "l = xs @ [c]"
        "l' = xs @ [c\<lparr>assistant := \<lparr>role = Assistant, content = p\<rparr>\<rparr>]"
    by blast
  then show "length l \<le> length l'"
    by cases simp_all
  from log_step_cases [OF st]
  consider (app) c where "l' = l @ [c]"
    | (upd) p xs c where "l = xs @ [c]"
        "l' = xs @ [c\<lparr>assistant := \<lparr>role = Assistant, content = p\<rparr>\<rparr>]"
    by blast
  then show "map user (take (length l) l') = map user l"
    by cases simp_all
  from log_step_cases [OF st]
  consider (app) c where "l' = l @ [c]"
    | (upd) p xs c where "l = xs @ [c]"
        "l' = xs @ [c\<lparr>assistant := \<lparr>role = Assistant, content = p\<rparr>\<rparr>]"
    by blast
  then show "(\<exists>c. l' = l @ [c]) \<or>
             (\<exists>p. l \<noteq> [] \<and>
                  l' = butlast l @ [(last l)\<lparr>assistant := (assistant (last l))\<lparr>content := p\<rparr>\<rparr>])"
  proof cases
    case app
    then show ?thesis by blast
  next
    case upd
    from inv upd(1) have "role (assistant c) = Assistant" by (simp add: card_inv_def)
    then have "\<lparr>role = Assistant, content = p\<rparr> = (assistant c)\<lparr>content := p\<rparr>" by simp
    then have "l' = butlast l @ [(last l)\<lparr>assistant := (assistant (last l))\<lparr>content := p\<rparr>\<rparr>]"
      using upd by simp
    moreover have "l \<noteq> []" using upd(1) by simp
    ultimately show ?thesis by blast
  qed
qed

theorem log_append_only_witness:
  "reachable [chat_card ''q1''] \<and>
   log_step [chat_card ''q1''] (update_last ''The'' [chat_card ''q1'']) \<and>
   list_all card_inv [chat_card ''q1''] \<and>
   reachable (update_last ''The'' [chat_card ''q1'']) \<and>
   length [chat_card ''q1''] \<le> length (update_last ''The'' [chat_card ''q1'']) \<and>
   map user (take 1 (update_last ''The'' [chat_card ''q1''])) = map user [chat_card ''q1'']"
proof -
  have r1: "reachable [chat_card ''q1'']"
    using reachable.step [OF reachable.initial log_step.submit_chat [of "[]" "''q1''"]]
    by (simp add: append_card_def)
  have s: "log_step [chat_card ''q1''] (update_last ''The'' [chat_card ''q1''])"
    by (rule log_step.streamed) simp
  from log_append_only [OF r1] s r1 show ?thesis by simp
qed

text \<open>
  C8. When the fragment sequence fails with \<open>e\<close> after the fragments \<open>fs\<close>,
  \<^verbatim>\<open>streamChat\<close> and \<^verbatim>\<open>streamSuggestions\<close> fail with \<open>e\<close>; their events are the
  request and one \<^verbatim>\<open>onChunk\<close> call per fragment consumed, and nothing after the
  failure. The handler that started the stream ends with the text accumulated up to the
  failure as the assistant content of the card it appended, and writes \<open>e\<close> to the
  console.
\<close>

theorem stream_failure:
  assumes "body response = Some (Stream fs (Some e))"
  shows "(fetch (chat_request u q i m) = Inr response \<longrightarrow>
            streamChat fetch u q i m =
              (Fetch (chat_request u q i m) #
                 map (\<lambda>k. OnChunk (concat (take (Suc k) fs))) [0..<length fs],
               Inl e)) \<and>
         (fetch (suggestions_request u i) = Inr response \<longrightarrow>
            streamSuggestions fetch u i =
              (Fetch (suggestions_request u i) #
                 map (\<lambda>k. OnChunk (concat (take (Suc k) fs))) [0..<length fs],
               Inl e)) \<and>
         (trim (userQuery st) \<noteq> [] \<and>
          fetch (chat_request (articleUrl st) (trim (userQuery st))
            (integrator_name (integrator st)) (model st)) = Inr response \<longrightarrow>
            conversations (handleSubmit fetch st) =
              conversations st @
                [\<lparr>user = \<lparr>role = User, content = trim (userQuery st)\<rparr>,
                  assistant = \<lparr>role = Assistant, content = concat fs\<rparr>\<rparr>] \<and>
            console_errors (handleSubmit fetch st) =
              console_errors st @ [(''Error streaming response:'', e)]) \<and>
         (articleUrl st \<noteq> [] \<and>
          fetch (suggestions_request (articleUrl st) (integrator_name (integrator st))) =
            Inr response \<longrightarrow>
            conversations (handleSuggestArticles fetch st) =
              conversations st @
                [\<lparr>user = \<lparr>role = User, content = ''Suggested Articles:''\<rparr>,
                  assistant = \<lparr>role = Assistant, content = concat fs\<rparr>\<rparr>] \<and>
            console_errors (handleSuggestArticles fetch st) =
              console_errors st @ [(''Error streaming suggestions:'', e)])"
proof (intro conjI impI)
  assume "fetch (chat_request u q i m) = Inr response"
  then show "streamChat fetch u q i m =
      (Fetch (chat_request u q i m) #
         map (\<lambda>k. OnChunk (concat (take (Suc k) fs))) [0..<length fs], Inl e)"
    using read_stream_body [OF assms] by (simp add: streamChat_def)
next
  assume "fetch (suggestions_request u i) = Inr response"
  then show "streamSuggestions fetch u i =
      (Fetch (suggestions_request u i) #
         map (\<lambda>k. OnChunk (concat (take (Suc k) fs))) [0..<length fs], Inl e)"
    using read_stream_body [OF assms] by (simp add: streamSuggestions_def)
next
  assume a: "trim (userQuery st) \<noteq> [] \<and>
          fetch (chat_request (articleUrl st) (trim (userQuery st))
            (integrator_name (integrator st)) (model st)) = Inr response"
  then show "conversations (handleSubmit fetch st) =
              conversations st @
                [\<lparr>user = \<lparr>role = User, content = trim (userQuery st)\<rparr>,
                  assistant = \<lparr>role = Assistant, content = concat fs\<rparr>\<rparr>]"
    using handleSubmit_streamed [OF _ _ assms, of st fetch] by simp
  from a show "console_errors (handleSubmit fetch st) =
              console_errors st @ [(''Error streaming response:'', e)]"
    using read_stream_body [OF assms] by (simp add: handleSubmit_console streamChat_def)
next
  assume a: "articleUrl st \<noteq> [] \<and>
          fetch (suggestions_request (articleUrl st) (integrator_name (integrator st))) =
            Inr response"
  then show "conversations (handleSuggestArticles fetch st) =
              conversations st @
                [\<lparr>user = \<lparr>role = User, content = ''Suggested Articles:''\<rparr>,
                  assistant = \<lparr>role = Assistant, content = concat fs\<rparr>\<rparr>]"
    using handleSuggestArticles_streamed [OF _ _ assms, of st fetch] by simp
  from a show "console_errors (handleSuggestArticles fetch st) =
              console_errors st @ [(''Error streaming suggestions:'', e)]"
    using read_stream_body [OF assms]
    by (simp add: handleSuggestArticles_console streamSuggestions_def)
qed

theorem stream_failure_witness:
  "streamChat
     (\<lambda>r. Inr \<lparr>status = 200, body = Some (Stream [''The'', '' article''] (Some (Error ''reset'')))\<rparr>)
     ''http://a.example'' ''hi'' ''openai'' [] =
     ([Fetch (chat_request ''http://a.example'' ''hi'' ''openai'' []),
       OnChunk ''The'', OnChunk ''The article''], Inl (Error ''reset'')) \<and>
   streamSuggestions
     (\<lambda>r. Inr \<lparr>status = 200, body = Some (Stream [''The'', '' article''] (Some (Error ''reset'')))\<rparr>)
     ''http://a.example'' ''openai'' =
     ([Fetch (suggestions_request ''http://a.example'' ''openai''),
       OnChunk ''The'', OnChunk ''The article''], Inl (Error ''reset'')) \<and>
   conversations (handleSubmit
     (\<lambda>r. Inr \<lparr>status = 200, body = Some (Stream [''The'', '' article''] (Some (Error ''reset'')))\<rparr>)
     (initial_state\<lparr>articleUrl := ''http://a.example'', userQuery := ''hi''\<rparr>)) =
     [\<lparr>user = \<lparr>role = User, content = ''hi''\<rparr>,
       assistant = \<lparr>role = Assistant, content = ''The article''\<rparr>\<rparr>] \<and>
   console_errors (handleSubmit
     (\<lambda>r. Inr \<lparr>status = 200, body = Some (Stream [''The'', '' article''] (Some (Error ''reset'')))\<rparr>)
     (initial_state\<lparr>articleUrl := ''http://a.example'', userQuery := ''hi''\<rparr>)) =
     [(''Error streaming response:'', Error ''reset'')] \<and>
   conversations (handleSuggestArticles
     (\<lambda>r. Inr \<lparr>status = 200, body = Some (Stream [''The'', '' article''] (Some (Error ''reset'')))\<rparr>)
     (initial_state\<lparr>articleUrl := ''http://a.example'', userQuery := ''hi''\<rparr>)) =
     [\<lparr>user = \<lparr>role = User, content = ''Suggested Articles:''\<rparr>,
       assistant = \<lparr>role = Assistant, content = ''The article''\<rparr>\<rparr>] \<and>
   console_errors (handleSuggestArticles
     (\<lambda>r. Inr \<lparr>status = 200, body = Some (Stream [''The'', '' article''] (Some (Error ''reset'')))\<rparr>)
     (initial_state\<lparr>articleUrl := ''http://a.example'', userQuery := ''hi''\<rparr>)) =
     [(''Error streaming suggestions:'', Error ''reset'')]"
  using stream_failure
    [of "\<lparr>status = 200, body = Some (Stream [''The'', '' article''] (Some (Error ''reset'')))\<rparr>"
        "[''The'', '' article'']" "Error ''reset''"
        "\<lambda>r. Inr \<lparr>status = 200, body = Some (Stream [''The'', '' article''] (Some (Error ''reset'')))\<rparr>"
        "''http://a.example''" "''hi''" "''openai''" "[]"
        "initial_state\<lparr>articleUrl := ''http://a.example'', userQuery := ''hi''\<rparr>"]
  by (simp add: initial_state_def trim_def is_space_def upt_conv_Cons)

text \<open>
  C9, as stated, fails when the message set is the one already displayed: the value of
  \<open>error\<close> does not change, the effect is not run again and no timer is installed. The
  timer of the first \<^verbatim>\<open>setError\<close> keeps running: set again after 5000 ms, the message is
  cleared 3000 ms later.
\<close>

theorem banner_repeat_counterexample:
  "timer (setError ''E'' (elapse 5000 (setError ''E'' banner_init))) = Some 3000 \<and>
   error (setError ''E'' (elapse 5000 (setError ''E'' banner_init))) = ''E'' \<and>
   error (elapse 3000 (setError ''E'' (elapse 5000 (setError ''E'' banner_init)))) = []"
  by (simp add: setError_def elapse_def banner_init_def error_effect_def error_cleanup_def)

text \<open>
  C9, amended. When the error state changes to a non-empty message, a timer of exactly
  8000 ms is installed; while less than 8000 ms have passed and nothing else sets the
  state, the message stays; once 8000 ms have passed, the state is the empty string.
  Setting the message that is already there changes nothing.
\<close>

theorem banner_timeout:
  "(e \<noteq> [] \<and> e \<noteq> error b \<longrightarrow>
      error (setError e b) = e \<and>
      timer (setError e b) = Some 8000 \<and>
      (\<forall>ds. sum_list ds < 8000 \<longrightarrow>
         error (foldl (\<lambda>b d. elapse d b) (setError e b) ds) = e) \<and>
      (\<forall>ds. 8000 \<le> sum_list ds \<longrightarrow>
         error (foldl (\<lambda>b d. elapse d b) (setError e b) ds) = [])) \<and>
   (e = error b \<longrightarrow> setError e b = b)"
proof (intro conjI impI allI)
  assume a: "e \<noteq> [] \<and> e \<noteq> error b"
  then show s1: "error (setError e b) = e" and s2: "timer (setError e b) = Some 8000"
    by (simp_all add: setError_def error_effect_def error_cleanup_def)
  fix ds :: "nat list"
  from a s1 have ne: "error (setError e b) \<noteq> []" by simp
  have "(0::nat) < 8000" by simp
  note run = elapse_pending [OF ne s2 this, of ds]
  show "error (foldl (\<lambda>b d. elapse d b) (setError e b) ds) = e" if "sum_list ds < 8000"
    using that run s1 by simp
  show "error (foldl (\<lambda>b d. elapse d b) (setError e b) ds) = []" if "8000 \<le> sum_list ds"
    using that run by simp
next
  assume "e = error b"
  then show "setError e b = b" by (simp add: setError_def)
qed

theorem banner_timeout_witness:
  "error (setError ''rate limited'' banner_init) = ''rate limited'' \<and>
   timer (setError ''rate limited'' banner_init) = Some 8000 \<and>
   error (foldl (\<lambda>b d. elapse d b) (setError ''rate limited'' banner_init) [3000, 4999]) =
     ''rate limited'' \<and>
   error (foldl (\<lambda>b d. elapse d b) (setError ''rate limited'' banner_init) [3000, 4999, 1]) = [] \<and>
   setError [] banner_init = banner_init"
proof -
  have h: "''rate limited'' \<noteq> [] \<and> ''rate limited'' \<noteq> error banner_init"
    by (simp add: banner_init_def)
  from banner_timeout [of "''rate limited''" banner_init] h
  have a: "error (setError ''rate limited'' banner_init) = ''rate limited''"
    and b: "timer (setError ''rate limited'' banner_init) = Some 8000"
    and c: "\<forall>ds. sum_list ds < 8000 \<longrightarrow>
         error (foldl (\<lambda>b d. elapse d b) (setError ''rate limited'' banner_init) ds) =
           ''rate limited''"
    and d: "\<forall>ds. 8000 \<le> sum_list ds \<longrightarrow>
         error (foldl (\<lambda>b d. elapse d b) (setError ''rate limited'' banner_init) ds) = []"
    by blast+
  have e: "setError [] banner_init = banner_init"
    using banner_timeout [of "[]" banner_init] by (simp add: banner_init_def)
  from c [rule_format, of "[3000, 4999]"] d [rule_format, of "[3000, 4999, 1]"] a b e
  show ?thesis by simp
qed

text \<open>
  C10. When the response carries no body, \<^verbatim>\<open>streamChat\<close> and \<^verbatim>\<open>streamSuggestions\<close>
  throw an \<^verbatim>\<open>Error\<close> with the message \<open>No streaming body in response\<close> right after the
  request: no fragment is read and \<^verbatim>\<open>onChunk\<close> is never called, so the card the handler
  appended keeps the empty string as its assistant content.
\<close>

theorem no_streaming_body:
  assumes "body response = None"
  shows "(fetch (chat_request u q i m) = Inr response \<longrightarrow>
            streamChat fetch u q i m =
              ([Fetch (chat_request u q i m)], Inl (Error ''No streaming body in response'')) \<and>
            onChunk_calls (fst (streamChat fetch u q i m)) = []) \<and>
         (fetch (suggestions_request u i) = Inr response \<longrightarrow>
            streamSuggestions fetch u i =
              ([Fetch (suggestions_request u i)], Inl (Error ''No streaming body in response'')) \<and>
            onChunk_calls (fst (streamSuggestions fetch u i)) = []) \<and>
         (trim (userQuery st) \<noteq> [] \<and>
          fetch (chat_request (articleUrl st) (trim (userQuery st))
            (integrator_name (integrator st)) (model st)) = Inr response \<longrightarrow>
            conversations (handleSubmit fetch st) =
              conversations st @
                [\<lparr>user = \<lparr>role = User, content = trim (userQuery st)\<rparr>,
                  assistant = \<lparr>role = Assistant, content = []\<rparr>\<rparr>]) \<and>
         (articleUrl st \<noteq> [] \<and>
          fetch (suggestions_request (articleUrl st) (integrator_name (integrator st))) =
            Inr response \<longrightarrow>
            conversations (handleSuggestArticles fetch st) =
              conversations st @
                [\<lparr>user = \<lparr>role = User, content = ''Suggested Articles:''\<rparr>,
                  assistant = \<lparr>role = Assistant, content = []\<rparr>\<rparr>])"
  using assms handleSubmit_no_body [of st fetch response]
    handleSuggestArticles_no_body [of st fetch response]
  by (simp add: streamChat_def streamSuggestions_def read_stream_def chat_card_def
      suggestions_card_def)

theorem no_streaming_body_witness:
  "streamChat (\<lambda>r. Inr \<lparr>status = 204, body = None\<rparr>) ''http://a.example'' ''hi'' ''openai'' [] =
     ([Fetch (chat_request ''http://a.example'' ''hi'' ''openai'' [])],
      Inl (Error ''No streaming body in response'')) \<and>
   streamSuggestions (\<lambda>r. Inr \<lparr>status = 204, body = None\<rparr>) ''http://a.example'' ''openai'' =
     ([Fetch (suggestions_request ''http://a.example'' ''openai'')],
      Inl (Error ''No streaming body in response'')) \<and>
   conversations (handleSubmit (\<lambda>r. Inr \<lparr>status = 204, body = None\<rparr>)
     (initial_state\<lparr>articleUrl := ''http://a.example'', userQuery := ''hi''\<rparr>)) =
     [\<lparr>user = \<lparr>role = User, content = ''hi''\<rparr>,
       assistant = \<lparr>role = Assistant, content = []\<rparr>\<rparr>] \<and>
   conversations (handleSuggestArticles (\<lambda>r. Inr \<lparr>status = 204, body = None\<rparr>)
     (initial_state\<lparr>articleUrl := ''http://a.example'', userQuery := ''hi''\<rparr>)) =
     [\<lparr>user = \<lparr>role = User, content = ''Suggested Articles:''\<rparr>,
       assistant = \<lparr>role = Assistant, content = []\<rparr>\<rparr>]"
  using no_streaming_body
    [of "\<lparr>status = 204, body = None\<rparr>" "\<lambda>r. Inr \<lparr>status = 204, body = None\<rparr>"
        "''http://a.example''" "''hi''" "''openai''" "[]"
        "initial_state\<lparr>articleUrl := ''http://a.example'', userQuery := ''hi''\<rparr>"]
  by (simp add: initial_state_def trim_def is_space_def)

end
